theory Spec2Isabelle
  imports Main
begin

section \<open>ppSearch.py: operand decomposition and adjacent-line pattern search\<close>

text \<open>
  The development embeds the pure parts of \<^verbatim>\<open>src/flutter/ppSearch.py\<close>:
  the slicing of \<^verbatim>\<open>hex_value\<close> into the two search operands (lines 127-142 of
  \<^verbatim>\<open>main\<close>), the scan of \<^verbatim>\<open>search_patterns\<close> and the control flow of
  \<^verbatim>\<open>import_library\<close>. Python strings are modelled as \<^typ>\<open>string\<close>, one
  \<^typ>\<open>char\<close> for each character of the \<open>str\<close>; the
  exceptions the modelled code can meet are the constructors of \<open>error\<close>.
  What the environment answers (whether a module can be imported, the exit code of
  \<open>pip\<close>, whether a compiled pattern finds a match in a line) is a parameter of
  the model.
\<close>

subsection \<open>Python primitives used by the script\<close>

datatype error =
    ImportError
  | CalledProcessError int
  | AssertionError int
  | IndexError
  | UnicodeEncodeError

text \<open>
  A slice bound of Python: a negative bound counts from the end, and every bound is
  clamped into \<open>0..len\<close>, so that slicing never raises.
\<close>

definition slice_index :: "nat \<Rightarrow> int \<Rightarrow> nat" where
  "slice_index n i = (if i < 0 then nat (int n + i) else min n (nat i))"

text \<open>\<^verbatim>\<open>s[a:b]\<close>, where \<open>None\<close> stands for an omitted bound.\<close>

definition py_slice :: "int option \<Rightarrow> int option \<Rightarrow> 'a list \<Rightarrow> 'a list" where
  "py_slice a b s =
     (let n = length s;
          lo = (case a of None \<Rightarrow> 0 | Some i \<Rightarrow> slice_index n i);
          hi = (case b of None \<Rightarrow> n | Some j \<Rightarrow> slice_index n j)
      in take (hi - lo) (drop lo s))"

text \<open>
  \<^verbatim>\<open>s.lstrip(chars)\<close>: the argument is a set of characters, and every leading
  character of \<open>s\<close> that belongs to it is removed.
\<close>

definition lstrip :: "string \<Rightarrow> string \<Rightarrow> string" where
  "lstrip chars s = dropWhile (\<lambda>c. c \<in> set chars) s"

text \<open>\<^verbatim>\<open>s.startswith(p)\<close>.\<close>

definition startswith :: "string \<Rightarrow> string \<Rightarrow> bool" where
  "startswith p s = (take (length p) s = p)"

text \<open>
  \<^verbatim>\<open>xs[i]\<close> for an index \<open>i \<ge> 0\<close>: an index past the end raises
  \<open>IndexError\<close>.
\<close>

definition py_index :: "'a list \<Rightarrow> nat \<Rightarrow> error + 'a" where
  "py_index xs i = (if i < length xs then Inr (xs ! i) else Inl IndexError)"

text \<open>\<^verbatim>\<open>range(n)\<close>: empty when \<open>n \<le> 0\<close>.\<close>

definition py_range :: "int \<Rightarrow> nat list" where
  "py_range n = [0..<nat n]"

text \<open>
  \<^verbatim>\<open>subprocess.run(args, check=check)\<close>, reduced to the exit code of the child
  process: with \<open>check\<close> set, a non-zero exit code raises
  \<open>CalledProcessError\<close>; otherwise the call returns a completed process, of
  which the model keeps \<open>returncode\<close>.
\<close>

definition subprocess_run :: "int \<Rightarrow> bool \<Rightarrow> error + int" where
  "subprocess_run exit_code check =
     (if check \<and> exit_code \<noteq> 0 then Inl (CalledProcessError exit_code)
      else Inr exit_code)"

subsection \<open>The operand decomposition of \<open>main\<close>\<close>

text \<open>
  Line 129: \<^verbatim>\<open>values = {"a", "b", "c", "d", "e", "f"}\<close>, a set of strings
  (\<open>values\<close> is a keyword of Isabelle, hence the suffix).
\<close>

definition values_set :: "string set" where
  "values_set = {''a'', ''b'', ''c'', ''d'', ''e'', ''f''}"

text \<open>Line 131: \<^verbatim>\<open>check_first = first_target.lstrip("0x")\<close>.\<close>

definition strip_step :: "string \<Rightarrow> string" where
  "strip_step first_target = lstrip ''0x'' first_target"

text \<open>
  Line 132:
  \<^verbatim>\<open>check_first = check_first[1:] if check_first.startswith("0") else check_first\<close>.
\<close>

definition drop_zero_step :: "string \<Rightarrow> string" where
  "drop_zero_step check_first =
     (if startswith ''0'' check_first then py_slice (Some 1) None check_first
      else check_first)"

text \<open>
  Lines 134-135:
  \<^verbatim>\<open>if len(check_first) == 1 and check_first not in values: first_target = check_first\<close>.
\<close>

definition collapse_step :: "string \<Rightarrow> string \<Rightarrow> string" where
  "collapse_step first_target check_first =
     (if length check_first = 1 \<and> check_first \<notin> values_set then check_first
      else first_target)"

text \<open>Lines 127-135: the first target (the spec's shift operand).\<close>

definition first_target :: "string \<Rightarrow> string" where
  "first_target hex_value =
     (let ft = py_slice (Some 0) (Some (- 3)) hex_value;
          check_first = strip_step ft;
          check_first = drop_zero_step check_first
      in collapse_step ft check_first)"

text \<open>Lines 137-142: the second target (the spec's offset operand).\<close>

definition second_target :: "string \<Rightarrow> string" where
  "second_target hex_value =
     (if py_slice (Some (- 3)) (Some (- 1)) hex_value = ''00''
      then py_slice (Some (- 1)) None hex_value
      else if py_slice (Some (- 3)) (Some (- 2)) hex_value = ''0''
      then ''0x'' @ py_slice (Some (- 2)) None hex_value
      else ''0x'' @ py_slice (Some (- 3)) None hex_value)"

text \<open>
  The two operands of lines 127-142 and the two lines that lines 143-144 print for
  them.
\<close>

record operands =
  printed :: "string list"
  first_tgt :: string
  second_tgt :: string

text \<open>
  Lines 125-144 of \<open>main\<close> on a standard output that accepts both lines (it
  does for every text of ASCII characters). The statements before the two
  \<open>print\<close> calls are slices, \<open>lstrip\<close>, \<open>startswith\<close>, \<open>len\<close>, a set
  membership test and string concatenation; none of them raises on a \<open>str\<close>,
  and there is no \<open>raise\<close> or \<open>sys.exit\<close> among them. The failure of a
  \<open>print\<close> is part of \<open>main_to_search\<close> below.
\<close>

definition main_decompose :: "string \<Rightarrow> error + operands" where
  "main_decompose hex_value =
     (let ft = first_target hex_value;
          st = second_target hex_value
      in Inr \<lparr>printed = [''The First Target is: '' @ ft, ''The Second Target is: '' @ st],
              first_tgt = ft, second_tgt = st\<rparr>)"






subsection \<open>\<open>search_patterns\<close>\<close>

text \<open>
  A compiled pattern is used only through \<^verbatim>\<open>pattern.search(line)\<close> in a
  condition, so it is modelled as the predicate telling whether a match is found.
\<close>

type_synonym pattern = "string \<Rightarrow> bool"

text \<open>
  The body of the loop (lines 106-107) at index \<open>i\<close>. Python's \<open>and\<close> reads
  \<open>output[i + 1]\<close> only when the first pattern has matched; the tuple appended
  reads the same two elements again.
\<close>

definition search_step ::
  "pattern \<Rightarrow> pattern \<Rightarrow> string list \<Rightarrow> nat \<Rightarrow> (string \<times> string) list
     \<Rightarrow> error + (string \<times> string) list" where
  "search_step pattern1 pattern2 output i matches =
     (case py_index output i of
        Inl e \<Rightarrow> Inl e
      | Inr a \<Rightarrow>
          if \<not> pattern1 a then Inr matches
          else (case py_index output (i + 1) of
                  Inl e \<Rightarrow> Inl e
                | Inr b \<Rightarrow>
                    if \<not> pattern2 b then Inr matches
                    else Inr (matches @ [(a, b)])))"

text \<open>The \<open>for\<close> loop over the indices still to visit.\<close>

fun search_loop ::
  "pattern \<Rightarrow> pattern \<Rightarrow> string list \<Rightarrow> nat list \<Rightarrow> (string \<times> string) list
     \<Rightarrow> error + (string \<times> string) list" where
  "search_loop pattern1 pattern2 output [] matches = Inr matches"
| "search_loop pattern1 pattern2 output (i # is) matches =
     (case search_step pattern1 pattern2 output i matches of
        Inl e \<Rightarrow> Inl e
      | Inr matches' \<Rightarrow> search_loop pattern1 pattern2 output is matches')"

text \<open>Lines 103-109.\<close>

definition search_patterns ::
  "string list \<Rightarrow> pattern \<Rightarrow> pattern \<Rightarrow> error + (string \<times> string) list" where
  "search_patterns output pattern1 pattern2 =
     search_loop pattern1 pattern2 output (py_range (int (length output) - 1)) []"

text \<open>
  The same loop with a ghost variable \<open>tested\<close>, which the source does not have:
  it records, in order, every index whose adjacent pair the loop body has examined.
\<close>

fun search_loop_traced ::
  "pattern \<Rightarrow> pattern \<Rightarrow> string list \<Rightarrow> nat list
     \<Rightarrow> (string \<times> string) list \<times> nat list
     \<Rightarrow> error + (string \<times> string) list \<times> nat list" where
  "search_loop_traced pattern1 pattern2 output [] st = Inr st"
| "search_loop_traced pattern1 pattern2 output (i # is) (matches, tested) =
     (case search_step pattern1 pattern2 output i matches of
        Inl e \<Rightarrow> Inl e
      | Inr matches' \<Rightarrow>
          search_loop_traced pattern1 pattern2 output is (matches', tested @ [i]))"

definition search_patterns_traced ::
  "string list \<Rightarrow> pattern \<Rightarrow> pattern \<Rightarrow> error + (string \<times> string) list \<times> nat list" where
  "search_patterns_traced output pattern1 pattern2 =
     search_loop_traced pattern1 pattern2 output
       (py_range (int (length output) - 1)) ([], [])"

text \<open>The pairs at the indices \<open>is\<close> on which both patterns match.\<close>

definition adjacent_matches ::
  "pattern \<Rightarrow> pattern \<Rightarrow> string list \<Rightarrow> nat list \<Rightarrow> (string \<times> string) list" where
  "adjacent_matches p1 p2 output is =
     map (\<lambda>i. (output ! i, output ! (i + 1)))
       (filter (\<lambda>i. p1 (output ! i) \<and> p2 (output ! (i + 1))) is)"

subsection \<open>\<open>import_library\<close>\<close>

text \<open>
  Lines 67-71, reached with \<open>completed.returncode\<close>: the test of the return code,
  the \<open>raise\<close> of its branch, and the second import. An import is \<open>Some\<close>
  module, or \<open>None\<close> when \<open>importlib.import_module\<close> raises
  \<open>ImportError\<close>.
\<close>

definition returncode_test :: "int \<Rightarrow> 'm option \<Rightarrow> error + 'm" where
  "returncode_test returncode second_import =
     (if returncode \<noteq> 0 then Inl (AssertionError returncode)
      else (case second_import of None \<Rightarrow> Inl ImportError | Some m \<Rightarrow> Inr m))"

text \<open>
  Lines 61-71. \<open>first_import\<close> and \<open>second_import\<close> are the outcomes of the two
  calls of \<open>importlib.import_module\<close>, \<open>pip_exit\<close> is the exit code of the
  \<open>pip install\<close> child process.
\<close>

definition import_library :: "'m option \<Rightarrow> int \<Rightarrow> 'm option \<Rightarrow> error + 'm" where
  "import_library first_import pip_exit second_import =
     (case first_import of
        Some m \<Rightarrow> Inr m
      | None \<Rightarrow>
          (case subprocess_run pip_exit True of
             Inl e \<Rightarrow> Inl e
           | Inr returncode \<Rightarrow> returncode_test returncode second_import))"

subsection \<open>Readings of the specification, for comparison with the code\<close>

text \<open>
  Rule 2 of the specification's section 4.1 as it is worded: a leading \<open>0x\<close> is
  removed when the two characters stand at the start, and nothing else is.
\<close>

definition spec_strip_0x :: "string \<Rightarrow> string" where
  "spec_strip_0x s = (if startswith ''0x'' s then drop 2 s else s)"

text \<open>Rules 1-4 of section 4.1 as they are worded, with rule 2 as above.\<close>

definition spec_first_target :: "string \<Rightarrow> string" where
  "spec_first_target hex_value =
     (let ft = py_slice (Some 0) (Some (- 3)) hex_value;
          stripped = spec_strip_0x ft;
          stripped = drop_zero_step stripped
      in collapse_step ft stripped)"

text \<open>Lines 127-135 with line 132 deleted.\<close>

definition first_target_without_drop :: "string \<Rightarrow> string" where
  "first_target_without_drop hex_value =
     (let ft = py_slice (Some 0) (Some (- 3)) hex_value;
          check_first = strip_step ft
      in collapse_step ft check_first)"

subsection \<open>Evaluation lemmas for slices\<close>

lemma slice_index_m3: "slice_index (Suc (Suc (Suc n))) (- 3) = n"
  and slice_index_m2: "slice_index (Suc (Suc (Suc n))) (- 2) = Suc n"
  and slice_index_m1: "slice_index (Suc (Suc (Suc n))) (- 1) = Suc (Suc n)"
  by (simp_all add: slice_index_def nat_add_distrib)

lemma py_slice_last3:
  "py_slice (Some (- 3)) None (pre @ [c1, c2, c3]) = [c1, c2, c3]"
  by (simp add: py_slice_def slice_index_m3)

lemma py_slice_last2:
  "py_slice (Some (- 2)) None (pre @ [c1, c2, c3]) = [c2, c3]"
  by (simp add: py_slice_def slice_index_m2)

lemma py_slice_last1:
  "py_slice (Some (- 1)) None (pre @ [c1, c2, c3]) = [c3]"
  by (simp add: py_slice_def slice_index_m1)

lemma py_slice_c1c2:
  "py_slice (Some (- 3)) (Some (- 1)) (pre @ [c1, c2, c3]) = [c1, c2]"
  by (simp add: py_slice_def slice_index_m3 slice_index_m1)

lemma py_slice_c1:
  "py_slice (Some (- 3)) (Some (- 2)) (pre @ [c1, c2, c3]) = [c1]"
  by (simp add: py_slice_def slice_index_m3 slice_index_m2)


lemma second_target_append:
  "second_target (pre @ [c1, c2, c3]) =
     (if c1 = CHR ''0'' \<and> c2 = CHR ''0'' then [c3]
      else if c1 = CHR ''0'' then ''0x'' @ [c2, c3]
      else ''0x'' @ [c1, c2, c3])"
  by (simp add: second_target_def py_slice_last3 py_slice_last2 py_slice_last1
      py_slice_c1c2 py_slice_c1)

lemma last3_decomp:
  assumes "3 \<le> length H"
  shows "H = take (length H - 3) H
           @ [H ! (length H - 3), H ! (length H - 2), H ! (length H - 1)]"
proof -
  define pre where "pre = take (length H - 3) H"
  define d where "d = drop (length H - 3) H"
  have "length d = 3"
    using assms by (simp add: d_def)
  then obtain c1 c2 c3 where d: "d = [c1, c2, c3]"
    by (auto simp: length_Suc_conv numeral_3_eq_3)
  have "H = pre @ d"
    unfolding pre_def d_def by (rule append_take_drop_id [symmetric])
  then have H: "H = pre @ [c1, c2, c3]"
    by (simp only: d)
  have n: "length H = length pre + 3"
    by (subst H) simp
  have "H ! (length H - 3) = c1" "H ! (length H - 2) = c2" "H ! (length H - 1) = c3"
    by (simp_all add: n) (simp_all add: H nth_append)
  with H show ?thesis
    by (simp add: pre_def)
qed

subsection \<open>The offset operand\<close>

text \<open>
  Claim C1. For every input string \<open>H\<close> with at least three characters (in
  particular for every \<open>H\<close> of length at least 4 made of \<open>0x\<close> and hex
  digits), with \<open>c1 c2 c3\<close> the last three characters of \<open>H\<close>, the second target
  is \<open>c3\<close> alone when \<open>c1 c2\<close> is \<open>00\<close>, else \<open>0x\<close> followed by \<open>c2 c3\<close>
  when \<open>c1\<close> is \<open>0\<close>, else \<open>0x\<close> followed by \<open>c1 c2 c3\<close>.
\<close>

theorem offset_operand_rule:
  assumes "3 \<le> length H"
  shows "second_target H =
     (let c1 = H ! (length H - 3); c2 = H ! (length H - 2); c3 = H ! (length H - 1)
      in if [c1, c2] = ''00'' then [c3]
         else if c1 = CHR ''0'' then ''0x'' @ [c2, c3]
         else ''0x'' @ [c1, c2, c3])"
proof -
  have "second_target H = second_target (take (length H - 3) H
           @ [H ! (length H - 3), H ! (length H - 2), H ! (length H - 1)])"
    using last3_decomp [OF assms] by simp
  then show ?thesis
    by (simp only: second_target_append Let_def) simp
qed

theorem offset_operand_rule_witness:
  "3 \<le> length ''0x88f0'' \<and> second_target ''0x88f0'' = ''0x8f0''
   \<and> second_target ''0x8800a'' = ''a'' \<and> second_target ''0x80a1'' = ''0xa1''"
  using offset_operand_rule [of "''0x88f0''"] offset_operand_rule [of "''0x8800a''"]
    offset_operand_rule [of "''0x80a1''"]
  by (simp add: Let_def)

text \<open>
  Claim C6. For the input \<open>0x88f0\<close> the decomposition gives the first target
  \<open>8\<close> and the second target \<open>0x8f0\<close>, printed and handed on as such.
\<close>

theorem example_0x88f0:
  "main_decompose ''0x88f0'' =
     Inr \<lparr>printed = [''The First Target is: 8'', ''The Second Target is: 0x8f0''],
          first_tgt = ''8'', second_tgt = ''0x8f0''\<rparr>"
  by code_simp


subsection \<open>The scan of adjacent lines\<close>

lemma search_step_in_range:
  "i + 1 < length output \<Longrightarrow>
   search_step p1 p2 output i m = Inr (m @ adjacent_matches p1 p2 output [i])"
  by (simp add: search_step_def py_index_def adjacent_matches_def)

lemma adjacent_matches_Cons:
  "adjacent_matches p1 p2 output (i # is) =
     adjacent_matches p1 p2 output [i] @ adjacent_matches p1 p2 output is"
  by (simp add: adjacent_matches_def)

lemma search_loop_in_range:
  "(\<And>i. i \<in> set is \<Longrightarrow> i + 1 < length output) \<Longrightarrow>
   search_loop p1 p2 output is m = Inr (m @ adjacent_matches p1 p2 output is)"
proof (induction "is" arbitrary: m)
  case Nil
  then show ?case by (simp add: adjacent_matches_def)
next
  case (Cons i "is")
  have "i + 1 < length output" using Cons.prems by simp
  then have step: "search_step p1 p2 output i m = Inr (m @ adjacent_matches p1 p2 output [i])"
    by (rule search_step_in_range)
  have "search_loop p1 p2 output is (m @ adjacent_matches p1 p2 output [i])
        = Inr ((m @ adjacent_matches p1 p2 output [i]) @ adjacent_matches p1 p2 output is)"
    using Cons.prems by (intro Cons.IH) simp
  then show ?case
    by (simp add: step adjacent_matches_Cons [of p1 p2 "output" i "is"])
qed

lemma search_loop_traced_eq:
  "search_loop_traced p1 p2 output is (m, t) =
     (case search_loop p1 p2 output is m of Inl e \<Rightarrow> Inl e | Inr m' \<Rightarrow> Inr (m', t @ is))"
  by (induction "is" arbitrary: m t) (auto split: sum.splits)

lemma py_range_in_range:
  "i \<in> set (py_range (int (length output) - 1)) \<Longrightarrow> i + 1 < length output"
  by (auto simp: py_range_def)

lemma py_range_len: "py_range (int (length output) - 1) = [0..<length output - 1]"
  by (simp add: py_range_def nat_diff_distrib')

lemma search_patterns_eq:
  "search_patterns output p1 p2 =
     Inr (adjacent_matches p1 p2 output [0..<length output - 1])"
proof -
  have "search_loop p1 p2 output (py_range (int (length output) - 1)) []
        = Inr ([] @ adjacent_matches p1 p2 output (py_range (int (length output) - 1)))"
    by (rule search_loop_in_range) (rule py_range_in_range)
  then show ?thesis
    by (simp add: search_patterns_def py_range_len)
qed

lemma search_patterns_traced_eq:
  "search_patterns_traced output p1 p2 =
     Inr (adjacent_matches p1 p2 output [0..<length output - 1], [0..<length output - 1])"
  using search_patterns_eq [of "output" p1 p2]
  by (simp add: search_patterns_traced_def search_patterns_def search_loop_traced_eq
      py_range_len)

text \<open>
  Claim C5. For every line sequence \<open>output\<close> of length \<open>L\<close> and every two
  patterns, \<open>search_patterns\<close> returns, without raising, exactly the pairs
  \<open>(output[i], output[i+1])\<close> for the indices \<open>i\<close> from \<open>0\<close> to
  \<open>L - 2\<close> at which the first pattern matches line \<open>i\<close> and the second line
  \<open>i + 1\<close>, in ascending order of \<open>i\<close>, with no pair dropped or merged. The
  indices whose pair the loop examines are \<open>0, ..., L - 2\<close>, each once, so
  \<open>L - 1\<close> tests at most (none when \<open>L = 0\<close>).
\<close>

theorem search_patterns_result:
  "search_patterns output p1 p2 =
     Inr (map (\<lambda>i. (output ! i, output ! (i + 1)))
            (filter (\<lambda>i. p1 (output ! i) \<and> p2 (output ! (i + 1))) [0..<length output - 1]))
   \<and> search_patterns_traced output p1 p2 =
     Inr (map (\<lambda>i. (output ! i, output ! (i + 1)))
            (filter (\<lambda>i. p1 (output ! i) \<and> p2 (output ! (i + 1))) [0..<length output - 1]),
          [0..<length output - 1])
   \<and> length [0..<length output - 1] = length output - 1
   \<and> distinct [0..<length output - 1]"
  by (simp add: search_patterns_eq search_patterns_traced_eq adjacent_matches_def)

theorem search_patterns_result_witness:
  "search_patterns [''ab'', ''ab'', ''ab'', ''c''] (\<lambda>l. l = ''ab'') (\<lambda>l. l = ''ab'')
     = Inr [(''ab'', ''ab''), (''ab'', ''ab'')]
   \<and> search_patterns_traced [''ab'', ''ab'', ''ab'', ''c''] (\<lambda>l. l = ''ab'') (\<lambda>l. l = ''ab'')
     = Inr ([(''ab'', ''ab''), (''ab'', ''ab'')], [0, 1, 2])"
  using search_patterns_result [of "[''ab'', ''ab'', ''ab'', ''c'']" "\<lambda>l. l = ''ab''" "\<lambda>l. l = ''ab''"]
  by (simp add: upt_rec numeral_nat)

text \<open>
  Claim C7. For a line sequence of length 0 or 1, and whenever no adjacent pair
  satisfies both patterns, \<open>search_patterns\<close> returns the empty list of matches;
  no \<open>IndexError\<close> is raised at the end of the sequence.
\<close>

theorem search_patterns_no_match:
  assumes "length output \<le> 1
     \<or> (\<forall>i. i + 1 < length output \<longrightarrow> \<not> (p1 (output ! i) \<and> p2 (output ! (i + 1))))"
  shows "search_patterns output p1 p2 = Inr []"
proof -
  have "filter (\<lambda>i. p1 (output ! i) \<and> p2 (output ! (i + 1))) [0..<length output - 1] = []"
    using assms by (auto simp: filter_empty_conv)
  then show ?thesis
    by (simp add: search_patterns_eq adjacent_matches_def)
qed

theorem search_patterns_no_match_witness:
  "search_patterns [] (\<lambda>l. True) (\<lambda>l. True) = Inr []
   \<and> search_patterns [''add x0, x27, 8, lsl 12''] (\<lambda>l. True) (\<lambda>l. True) = Inr []
   \<and> search_patterns [''ldr'', ''add'', ''nop'', ''ldr''] (\<lambda>l. l = ''add'') (\<lambda>l. l = ''ldr'')
       = Inr []"
proof -
  have a: "search_patterns [] (\<lambda>l. True) (\<lambda>l. True) = Inr []"
    using search_patterns_no_match [of "[]" "\<lambda>l. True" "\<lambda>l. True"] by simp
  have b: "search_patterns [''add x0, x27, 8, lsl 12''] (\<lambda>l. True) (\<lambda>l. True) = Inr []"
    using search_patterns_no_match [of "[''add x0, x27, 8, lsl 12'']" "\<lambda>l. True" "\<lambda>l. True"]
    by simp
  have "\<forall>i. i + 1 < length [''ldr'', ''add'', ''nop'', ''ldr''] \<longrightarrow>
          \<not> ([''ldr'', ''add'', ''nop'', ''ldr''] ! i = ''add''
             \<and> [''ldr'', ''add'', ''nop'', ''ldr''] ! (i + 1) = ''ldr'')"
    by (simp add: nth_Cons' less_Suc_eq numeral_nat)
  then have c: "search_patterns [''ldr'', ''add'', ''nop'', ''ldr''] (\<lambda>l. l = ''add'') (\<lambda>l. l = ''ldr'')
       = Inr []"
    by (intro search_patterns_no_match) simp
  from a b c show ?thesis by simp
qed

subsection \<open>The shift operand\<close>

lemma strip_step_no_zero: "\<not> startswith ''0'' (strip_step s)"
proof (cases "strip_step s")
  case Nil
  then show ?thesis by (simp add: startswith_def)
next
  case (Cons c cs)
  then have "dropWhile (\<lambda>c. c \<in> set ''0x'') s \<noteq> []"
    by (simp add: strip_step_def lstrip_def)
  then have "\<not> hd (dropWhile (\<lambda>c. c \<in> set ''0x'') s) \<in> set ''0x''"
    by (rule hd_dropWhile)
  then have "c \<noteq> CHR ''0''"
    using Cons by (simp add: strip_step_def lstrip_def)
  then show ?thesis
    using Cons by (simp add: startswith_def)
qed

text \<open>
  Claim C8. Line 132 never changes its input: line 131 has removed every leading
  character among \<open>0\<close> and \<open>x\<close>, so the string cannot start with \<open>0\<close>,
  and lines 127-135 with line 132 deleted compute the same first target for every
  input string.
\<close>

theorem drop_zero_step_dead:
  "drop_zero_step (strip_step ft) = strip_step ft
   \<and> first_target_without_drop H = first_target H"
  by (simp add: drop_zero_step_def strip_step_no_zero first_target_without_drop_def
      first_target_def)

text \<open>
  Claim C3, evaluated at the input \<open>0x008f0\<close>. The first target before line 131
  is \<open>0x00\<close>. The claim has the intermediate string be \<open>00\<close>, the two
  leading characters \<open>0x\<close> removed and no more; line 131 removes the two zeros as
  well and leaves the empty string.
\<close>

theorem strip_step_at_0x008f0:
  "py_slice (Some 0) (Some (- 3)) ''0x008f0'' = ''0x00''
   \<and> strip_step ''0x00'' = ''''
   \<and> spec_strip_0x ''0x00'' = ''00''"
  by code_simp

text \<open>
  Claim C4, evaluated at the inputs \<open>0x008f0\<close> and \<open>0x0088f0\<close>. By the
  claim the first input collapses to the bare digit \<open>0\<close> (after \<open>0x\<close> and one
  further \<open>0\<close> are removed from \<open>0x00\<close>, the single digit \<open>0\<close> remains) and
  the second keeps \<open>0x008\<close> (two characters remain). The code keeps \<open>0x00\<close> for
  the first and collapses the second to \<open>8\<close>.
\<close>

theorem first_target_at_0x008f0:
  "first_target ''0x008f0'' = ''0x00'' \<and> spec_first_target ''0x008f0'' = ''0''
   \<and> first_target ''0x0088f0'' = ''8'' \<and> spec_first_target ''0x0088f0'' = ''0x008''"
  by code_simp

subsection \<open>Short and malformed inputs\<close>

lemma first_target_short:
  assumes "length H \<le> 3"
  shows "first_target H = ''''"
proof -
  have "py_slice (Some 0) (Some (- 3)) H = []"
    using assms by (simp add: py_slice_def slice_index_def)
  then show ?thesis
    by (simp add: first_target_def strip_step_def lstrip_def drop_zero_step_def
        startswith_def collapse_step_def)
qed

lemma second_target_short:
  assumes "length H < 3"
  shows "second_target H = ''0x'' @ H"
proof -
  have "length H = 0 \<or> length H = Suc 0 \<or> length H = Suc (Suc 0)"
    using assms by linarith
  then consider "H = []" | a where "H = [a]" | a b where "H = [a, b]"
    by (auto simp: length_Suc_conv)
  then show ?thesis
    by cases (simp_all add: second_target_def py_slice_def slice_index_def)
qed

text \<open>
  Claim C9. For every input string \<open>H\<close> of at most three characters the
  decomposition completes without an error, the first target is the empty string, and
  the second target is still computed from the characters of \<open>H\<close>; with fewer
  than three characters it is \<open>0x\<close> followed by the whole of \<open>H\<close>.
\<close>

theorem short_input:
  assumes "length H \<le> 3"
  shows "main_decompose H =
           Inr \<lparr>printed = [''The First Target is: '',
                            ''The Second Target is: '' @ second_target H],
                first_tgt = '''', second_tgt = second_target H\<rparr>
         \<and> (length H < 3 \<longrightarrow> second_target H = ''0x'' @ H)"
  using assms by (simp add: main_decompose_def Let_def first_target_short second_target_short)

theorem short_input_witness:
  "length ''0x'' \<le> 3 \<and> length ''100'' \<le> 3
   \<and> main_decompose ''0x'' =
        Inr \<lparr>printed = [''The First Target is: '', ''The Second Target is: 0x0x''],
             first_tgt = '''', second_tgt = ''0x0x''\<rparr>
   \<and> main_decompose ''100'' =
        Inr \<lparr>printed = [''The First Target is: '', ''The Second Target is: 0x100''],
             first_tgt = '''', second_tgt = ''0x100''\<rparr>"
  using short_input [of "''0x''"] short_input [of "''100''"]
    second_target_append [of "[]" "CHR ''1''" "CHR ''0''" "CHR ''0''"]
  by simp







subsection \<open>The installer branch of \<open>import_library\<close>\<close>

lemma subprocess_run_check:
  "subprocess_run rc True = (if rc = 0 then Inr 0 else Inl (CalledProcessError rc))"
  by (simp add: subprocess_run_def)

text \<open>
  Claim C10. In \<open>import_library\<close> the branch that raises \<open>AssertionError\<close>
  with the installer's exit code is unreachable: \<open>subprocess.run\<close> is called
  with \<open>check=True\<close> and raises \<open>CalledProcessError\<close> whenever the exit code
  is not zero, so the test of the return code is reached only with return code 0.
\<close>

theorem assertion_branch_unreachable:
  "import_library first_import pip_exit second_import \<noteq> Inl (AssertionError c)
   \<and> (\<forall>returncode. subprocess_run pip_exit True = Inr returncode \<longrightarrow> returncode = 0)
   \<and> (pip_exit \<noteq> 0 \<longrightarrow> subprocess_run pip_exit True = Inl (CalledProcessError pip_exit))"
  by (auto simp: import_library_def subprocess_run_check returncode_test_def
      split: option.splits)

theorem assertion_branch_unreachable_witness:
  "import_library (None :: unit option) 1 (Some ()) = Inl (CalledProcessError 1)
   \<and> import_library (None :: unit option) 1 (Some ()) \<noteq> Inl (AssertionError 1)
   \<and> subprocess_run 0 True = Inr 0
   \<and> returncode_test 1 (Some ()) = Inl (AssertionError 1)"
  using assertion_branch_unreachable [of "None :: unit option" 1 "Some ()" 1]
    assertion_branch_unreachable [of "None :: unit option" 0 "Some ()" 0]
  by (simp add: import_library_def subprocess_run_def returncode_test_def)

end
